theory Spec2Isabelle
  imports Complex_Main
begin

section \<open>The parameter form and the orbit calculation of \<^verbatim>\<open>Moon_Orbit.py\<close>\<close>

text \<open>
  The program is one Python file. \<open>create_gui\<close> builds a form of five text fields and a
  button; the button runs \<open>calculate_and_plot(entries)\<close>, which reads the five fields with
  \<open>float\<close>, samples the two orbits with numpy and hands the curves to matplotlib. A
  \<open>ValueError\<close> raised anywhere in that body is caught and reported in a message box.

  Conventions of the embedding.
  \<^item> A Python \<open>float\<close> and a numpy \<open>float64\<close> are read as a real number, and the
    arithmetic as exact arithmetic. Rounding, overflow to infinity and NaN of IEEE-754
    doubles are outside the model. The model therefore says which operations the code
    applies to which operands, in which order, on arrays of which length, and when it
    raises; it does not say which double an operation returns. What is proved below
    is of the first kind only. A property of the computed numbers themselves (that two
    of them are equal, or that one is less than another) is not settled by this
    model: the program meets such a property up to rounding at best, and misses it
    where an intermediate result overflows.
  \<^item> A numpy array is a list; an operation of a scalar and an array is a \<open>map\<close>, an
    operation of two arrays of one shape is a \<open>map2\<close>.
  \<^item> An exception is the left summand of a sum type.
  \<^item> A \<open>dict\<close> is an association list in insertion order, which is the order in which
    the dict comprehension of \<open>calculate_and_plot\<close> visits the fields.
  \<^item> Python's built-in \<open>float(str)\<close> is a parameter \<open>py_float\<close> of the model, with
    \<open>None\<close> for the strings on which it raises \<open>ValueError\<close>.
  \<^item> The texts shown to the user (labels, window and dialog titles, legend and title
    wording, fonts, colours) are not modelled; only the data they are built from is.
\<close>

subsection \<open>Exceptions\<close>

datatype py_error = ValueError | KeyError | ZeroDivisionError

definition bind_exn :: "py_error + 'a \<Rightarrow> ('a \<Rightarrow> py_error + 'b) \<Rightarrow> py_error + 'b" where
  "bind_exn m f = (case m of Inl e \<Rightarrow> Inl e | Inr x \<Rightarrow> f x)"

text \<open>Division of two Python floats: \<open>a / b\<close> raises \<open>ZeroDivisionError\<close> when \<open>b\<close> is zero.\<close>

definition py_truediv :: "real \<Rightarrow> real \<Rightarrow> py_error + real" where
  "py_truediv a b = (if b = 0 then Inl ZeroDivisionError else Inr (a / b))"

text \<open>\<open>int(x)\<close> of a float truncates towards zero.\<close>

definition py_int :: "real \<Rightarrow> int" where
  "py_int x = (if 0 \<le> x then \<lfloor>x\<rfloor> else \<lceil>x\<rceil>)"

subsection \<open>The numpy operations the calculation uses\<close>

text \<open>
  \<open>np.linspace(start, stop, num)\<close> with the default \<open>endpoint=True\<close>: with
  \<open>step = (stop - start) / (num - 1)\<close> the array is \<open>arange(0, num) * step + start\<close>,
  whose last element is then overwritten with \<open>stop\<close>; a single sample is \<open>start\<close>.
  numpy's other branch, taken when the double \<open>step\<close> is zero, computes
  \<open>arange(0, num) / (num - 1) * (stop - start) + start\<close>; as real numbers the two
  are the same, so the model has one branch. Only the length of the array is used
  below.
\<close>

definition linspace :: "real \<Rightarrow> real \<Rightarrow> nat \<Rightarrow> real list" where
  "linspace start stop num =
     (if num = 0 then []
      else if num = 1 then [start]
      else (let step = (stop - start) / real (num - 1);
                y = map (\<lambda>i. real i * step + start) [0..<num]
            in y[num - 1 := stop]))"

definition scalar_mul :: "real \<Rightarrow> real list \<Rightarrow> real list" where
  "scalar_mul a xs = map (\<lambda>x. a * x) xs"

definition np_cos :: "real list \<Rightarrow> real list" where
  "np_cos xs = map cos xs"

definition np_sin :: "real list \<Rightarrow> real list" where
  "np_sin xs = map sin xs"

definition array_add :: "real list \<Rightarrow> real list \<Rightarrow> real list" where
  "array_add xs ys = map2 (+) xs ys"

subsection \<open>Reading the form: lines 47 to 53 of \<open>calculate_and_plot\<close>\<close>

text \<open>
  \<open>vals = {name: float(entry.get()) for name, entry in entries.items()}\<close>: the fields are
  converted in order, and the first text that is not a number raises \<open>ValueError\<close>.
\<close>

fun float_vals ::
  "(string \<Rightarrow> real option) \<Rightarrow> (string \<times> string) list \<Rightarrow> py_error + (string \<times> real) list" where
  "float_vals py_float [] = Inr []"
| "float_vals py_float ((name, txt) # es) =
     (case py_float txt of
        None \<Rightarrow> Inl ValueError
      | Some x \<Rightarrow> bind_exn (float_vals py_float es) (\<lambda>vals. Inr ((name, x) # vals)))"

text \<open>\<open>vals[key]\<close> raises \<open>KeyError\<close> for a key that is not in the dict.\<close>

definition getitem :: "(string \<times> real) list \<Rightarrow> string \<Rightarrow> py_error + real" where
  "getitem vals key = (case map_of vals key of None \<Rightarrow> Inl KeyError | Some x \<Rightarrow> Inr x)"

record orbit_values =
  AU :: real
  EM_DIST :: real
  YEAR_DAYS :: real
  MONTH_DAYS :: real
  SCALE :: real

definition read_values ::
  "(string \<Rightarrow> real option) \<Rightarrow> (string \<times> string) list \<Rightarrow> py_error + orbit_values" where
  "read_values py_float entries =
     bind_exn (float_vals py_float entries) (\<lambda>vals.
     bind_exn (getitem vals ''AU'') (\<lambda>au.
     bind_exn (getitem vals ''EM_DIST'') (\<lambda>em_dist.
     bind_exn (getitem vals ''YEAR'') (\<lambda>year_days.
     bind_exn (getitem vals ''MONTH'') (\<lambda>month_days.
     bind_exn (getitem vals ''SCALE'') (\<lambda>scale.
       Inr \<lparr>AU = au, EM_DIST = em_dist, YEAR_DAYS = year_days,
            MONTH_DAYS = month_days, SCALE = scale\<rparr>))))))"

subsection \<open>The calculation: lines 57 to 67 of \<open>calculate_and_plot\<close>\<close>

definition sample_count :: nat where
  "sample_count = 10000"

record paths =
  t :: "real list"
  omega_e :: real
  omega_m :: real
  xe :: "real list"
  ye :: "real list"
  xm :: "real list"
  ym :: "real list"

text \<open>Line 57: \<open>t = np.linspace(0, YEAR_DAYS, 10000)\<close>.\<close>

definition sample_times :: "orbit_values \<Rightarrow> real list" where
  "sample_times v = linspace 0 (YEAR_DAYS v) sample_count"

text \<open>
  Lines 57 to 67. The two divisions of lines 58 and 59 are the only operations that can
  raise; they come after line 57 and before any position is computed.
\<close>

definition compute_paths :: "orbit_values \<Rightarrow> py_error + paths" where
  "compute_paths v =
     (let t = sample_times v in
      bind_exn (py_truediv (2 * pi) (YEAR_DAYS v)) (\<lambda>omega_e.
      bind_exn (py_truediv (2 * pi) (MONTH_DAYS v)) (\<lambda>omega_m.
        let xe = scalar_mul (AU v) (np_cos (scalar_mul omega_e t));
            ye = scalar_mul (AU v) (np_sin (scalar_mul omega_e t));
            xm = array_add xe (scalar_mul (EM_DIST v * SCALE v) (np_cos (scalar_mul omega_m t)));
            ym = array_add ye (scalar_mul (EM_DIST v * SCALE v) (np_sin (scalar_mul omega_m t)))
        in Inr \<lparr>t = t, omega_e = omega_e, omega_m = omega_m,
                xe = xe, ye = ye, xm = xm, ym = ym\<rparr>)))"

subsection \<open>The figure: lines 71 to 91 of \<open>calculate_and_plot\<close>\<close>

text \<open>
  What is handed to matplotlib: the marker of the Sun at the origin, the line through the
  points \<open>(xe[i], ye[i])\<close>, the line through the points \<open>(xm[i], ym[i])\<close>, the integer
  \<open>int(SCALE)\<close> of the legend and the number of days of the title.
\<close>

record figure =
  sun :: "real \<times> real"
  earthPath :: "(real \<times> real) list"
  moonPath :: "(real \<times> real) list"
  legend_scale :: int
  title_days :: real

definition draw :: "orbit_values \<Rightarrow> paths \<Rightarrow> figure" where
  "draw v p =
     \<lparr>sun = (0, 0),
      earthPath = zip (xe p) (ye p),
      moonPath = zip (xm p) (ym p),
      legend_scale = py_int (SCALE v),
      title_days = YEAR_DAYS v\<rparr>"

subsection \<open>\<open>calculate_and_plot\<close>: the body and its \<open>except ValueError\<close>\<close>

text \<open>
  The body is reading the form, the calculation and the figure, in this order; a
  \<open>ValueError\<close> becomes the message box and any other exception leaves the function.
  Of the exceptions of the body the model has those of lines 47 to 59. After line 67
  the program can still raise: \<open>int(SCALE)\<close> of line 76 raises \<open>ValueError\<close> for NaN
  and \<open>OverflowError\<close> for an infinity, and matplotlib may raise on its own. A real
  number is neither NaN nor infinite, so \<open>py_int\<close> is total, and what happens inside
  matplotlib is not modelled: \<open>Shown\<close> means that the figure was handed over.
\<close>

datatype outcome =
    Shown figure
  | ErrorBox
  | Raised py_error

definition calculate_and_plot ::
  "(string \<Rightarrow> real option) \<Rightarrow> (string \<times> string) list \<Rightarrow> outcome" where
  "calculate_and_plot py_float entries =
     (case bind_exn (read_values py_float entries) (\<lambda>v.
           bind_exn (compute_paths v) (\<lambda>p. Inr (draw v p))) of
        Inr fig \<Rightarrow> Shown fig
      | Inl ValueError \<Rightarrow> ErrorBox
      | Inl e \<Rightarrow> Raised e)"

subsection \<open>\<open>create_gui\<close>: the fields and their initial texts\<close>

text \<open>
  \<open>config_items\<close> with the key and the default text of each field (the label, a text in
  Chinese, is left out). The loop stores one entry widget per item under its key, holding
  the default text.
\<close>

definition config_items :: "(string \<times> string) list" where
  "config_items =
     [(''AU'', ''149600000''),
      (''EM_DIST'', ''384400''),
      (''YEAR'', ''365.25''),
      (''MONTH'', ''27.32''),
      (''SCALE'', ''50'')]"

fun dict_set :: "'k \<Rightarrow> 'v \<Rightarrow> ('k \<times> 'v) list \<Rightarrow> ('k \<times> 'v) list" where
  "dict_set k v [] = [(k, v)]"
| "dict_set k v ((k', v') # d) =
     (if k = k' then (k, v) # d else (k', v') # dict_set k v d)"

definition create_gui_entries :: "(string \<times> string) list" where
  "create_gui_entries = foldl (\<lambda>entries (key, default). dict_set key default entries) [] config_items"

text \<open>
  The five values the form holds at launch: the doubles that \<open>float\<close> returns for the
  default texts of \<open>config_items\<close>. Four of the texts denote a double exactly; the
  double nearest to 27.32 is \<open>3844948181867561 / 2^47\<close>.
\<close>

definition default_values :: orbit_values where
  "default_values =
     \<lparr>AU = 149600000, EM_DIST = 384400, YEAR_DAYS = 365.25,
      MONTH_DAYS = 3844948181867561 / 140737488355328, SCALE = 50\<rparr>"

section \<open>Auxiliary facts\<close>

subsection \<open>The arrays\<close>

lemma length_linspace: "length (linspace start stop num) = num"
  by (simp add: linspace_def Let_def)

lemma length_sample_times: "length (sample_times v) = sample_count"
  by (simp add: sample_times_def length_linspace)

lemma map2_same: "map2 f (map g xs) (map h xs) = map (\<lambda>x. f (g x) (h x)) xs"
  by (induction xs) simp_all

lemma array_add_maps:
  "array_add (map g xs) (map h xs) = map (\<lambda>x. g x + h x) xs"
  unfolding array_add_def by (rule map2_same)

lemma trig_arrays:
  "scalar_mul a (np_cos (scalar_mul w xs)) = map (\<lambda>s. a * cos (w * s)) xs"
  "scalar_mul a (np_sin (scalar_mul w xs)) = map (\<lambda>s. a * sin (w * s)) xs"
  by (simp_all add: scalar_mul_def np_cos_def np_sin_def)

lemma compute_paths_eq:
  assumes "YEAR_DAYS v \<noteq> 0" "MONTH_DAYS v \<noteq> 0"
  shows "compute_paths v =
    Inr \<lparr>t = sample_times v,
         omega_e = 2 * pi / YEAR_DAYS v,
         omega_m = 2 * pi / MONTH_DAYS v,
         xe = map (\<lambda>s. AU v * cos (2 * pi / YEAR_DAYS v * s)) (sample_times v),
         ye = map (\<lambda>s. AU v * sin (2 * pi / YEAR_DAYS v * s)) (sample_times v),
         xm = map (\<lambda>s. AU v * cos (2 * pi / YEAR_DAYS v * s)
                        + EM_DIST v * SCALE v * cos (2 * pi / MONTH_DAYS v * s))
                (sample_times v),
         ym = map (\<lambda>s. AU v * sin (2 * pi / YEAR_DAYS v * s)
                        + EM_DIST v * SCALE v * sin (2 * pi / MONTH_DAYS v * s))
                (sample_times v)\<rparr>"
  using assms
  by (simp add: compute_paths_def bind_exn_def py_truediv_def Let_def trig_arrays array_add_maps)

lemma compute_paths_zero:
  "YEAR_DAYS v = 0 \<or> MONTH_DAYS v = 0 \<Longrightarrow> compute_paths v = Inl ZeroDivisionError"
  by (auto simp: compute_paths_def bind_exn_def py_truediv_def Let_def)

lemma compute_paths_samples:
  assumes "YEAR_DAYS v \<noteq> 0" "MONTH_DAYS v \<noteq> 0"
  shows "\<exists>p. compute_paths v = Inr p
    \<and> t p = sample_times v
    \<and> omega_e p = 2 * pi / YEAR_DAYS v
    \<and> omega_m p = 2 * pi / MONTH_DAYS v
    \<and> length (xe p) = sample_count \<and> length (ye p) = sample_count
    \<and> length (xm p) = sample_count \<and> length (ym p) = sample_count
    \<and> (\<forall>i<sample_count.
          xe p ! i = AU v * cos (omega_e p * t p ! i)
        \<and> ye p ! i = AU v * sin (omega_e p * t p ! i)
        \<and> xm p ! i = xe p ! i + EM_DIST v * SCALE v * cos (omega_m p * t p ! i)
        \<and> ym p ! i = ye p ! i + EM_DIST v * SCALE v * sin (omega_m p * t p ! i))"
  by (simp add: compute_paths_eq [OF assms] length_sample_times)

lemma default_values_sel:
  "AU default_values = 149600000" "EM_DIST default_values = 384400"
  "YEAR_DAYS default_values = 365.25"
  "MONTH_DAYS default_values = 3844948181867561 / 140737488355328"
  "SCALE default_values = 50"
  by (simp_all add: default_values_def)

lemma sample_count_pos: "0 < sample_count"
  by (simp add: sample_count_def)

subsection \<open>The form and the \<open>except\<close> clause\<close>

lemma bind_exn_Inl: "bind_exn (Inl e) f = Inl e"
  by (simp add: bind_exn_def)

lemma bind_exn_Inr: "bind_exn (Inr x) f = f x"
  by (simp add: bind_exn_def)

lemma float_vals_ValueError:
  "(name, txt) \<in> set entries \<Longrightarrow> py_float txt = None \<Longrightarrow>
     float_vals py_float entries = Inl ValueError"
proof (induction entries)
  case Nil
  then show ?case by simp
next
  case (Cons e es)
  obtain name' txt' where e: "e = (name', txt')" by (cases e)
  show ?case
  proof (cases "py_float txt'")
    case None
    then show ?thesis by (simp add: e)
  next
    case (Some x)
    with Cons.prems e have "(name, txt) \<in> set es" by auto
    with Cons have "float_vals py_float es = Inl ValueError" by simp
    then show ?thesis by (simp add: e Some bind_exn_Inl)
  qed
qed

lemma calculate_and_plot_read:
  "read_values py_float entries = Inr v \<Longrightarrow>
     calculate_and_plot py_float entries =
       (case compute_paths v of
          Inr p \<Rightarrow> Shown (draw v p)
        | Inl ValueError \<Rightarrow> ErrorBox
        | Inl e \<Rightarrow> Raised e)"
  by (simp add: calculate_and_plot_def bind_exn_def split: sum.splits)

lemma calculate_and_plot_shown:
  assumes "read_values py_float entries = Inr v" "YEAR_DAYS v \<noteq> 0" "MONTH_DAYS v \<noteq> 0"
  shows "\<exists>p. compute_paths v = Inr p \<and> calculate_and_plot py_float entries = Shown (draw v p)"
proof -
  from compute_paths_samples [OF assms(2,3)] obtain p where "compute_paths v = Inr p"
    by blast
  then show ?thesis by (simp add: calculate_and_plot_read [OF assms(1)])
qed

lemma calculate_and_plot_zero_period:
  assumes "read_values py_float entries = Inr v" "YEAR_DAYS v = 0 \<or> MONTH_DAYS v = 0"
  shows "calculate_and_plot py_float entries = Raised ZeroDivisionError"
  by (simp add: calculate_and_plot_read [OF assms(1)] compute_paths_zero [OF assms(2)])

lemma read_values_defaults:
  assumes "py_float ''149600000'' = Some 149600000" "py_float ''384400'' = Some 384400"
    "py_float ''365.25'' = Some 365.25"
    "py_float ''27.32'' = Some (3844948181867561 / 140737488355328)"
    "py_float ''50'' = Some 50"
  shows "read_values py_float create_gui_entries = Inr default_values"
  using assms
  by (simp add: create_gui_entries_def config_items_def read_values_def bind_exn_def
      getitem_def default_values_def)

section \<open>The calculation\<close>

text \<open>
  Claim C1. For positive year and month lengths the calculation raises nothing and
  returns the angular rates \<open>omega_e = 2 pi / YEAR_DAYS\<close> and
  \<open>omega_m = 2 pi / MONTH_DAYS\<close>; at every sample index \<open>i\<close>, with \<open>t[i]\<close> the
  sample time, the Earth is at \<open>(AU cos (omega_e t[i]), AU sin (omega_e t[i]))\<close> and the
  Moon at the Earth's position plus
  \<open>(EM_DIST SCALE) (cos (omega_m t[i]), sin (omega_m t[i]))\<close>.
\<close>

theorem orbit_formulas:
  assumes "0 < YEAR_DAYS v" "0 < MONTH_DAYS v"
  shows "\<exists>p. compute_paths v = Inr p
    \<and> t p = sample_times v
    \<and> omega_e p = 2 * pi / YEAR_DAYS v
    \<and> omega_m p = 2 * pi / MONTH_DAYS v
    \<and> (\<forall>i<sample_count.
          xe p ! i = AU v * cos (omega_e p * t p ! i)
        \<and> ye p ! i = AU v * sin (omega_e p * t p ! i)
        \<and> xm p ! i = xe p ! i + EM_DIST v * SCALE v * cos (omega_m p * t p ! i)
        \<and> ym p ! i = ye p ! i + EM_DIST v * SCALE v * sin (omega_m p * t p ! i))"
proof -
  have "YEAR_DAYS v \<noteq> 0" "MONTH_DAYS v \<noteq> 0" using assms by simp_all
  from compute_paths_samples [OF this] show ?thesis by blast
qed

theorem orbit_formulas_witness:
  "0 < YEAR_DAYS default_values \<and> 0 < MONTH_DAYS default_values
   \<and> (\<exists>p. compute_paths default_values = Inr p
        \<and> omega_e p = 2 * pi / 365.25
        \<and> omega_m p = 2 * pi / (3844948181867561 / 140737488355328)
        \<and> xe p ! 0 = 149600000 * cos (omega_e p * t p ! 0)
        \<and> xm p ! 0 = xe p ! 0 + 384400 * 50 * cos (omega_m p * t p ! 0))"
proof -
  have h: "0 < YEAR_DAYS default_values" "0 < MONTH_DAYS default_values"
    by (simp_all add: default_values_sel)
  from orbit_formulas [OF h] obtain p where
    p: "compute_paths default_values = Inr p"
       "omega_e p = 2 * pi / YEAR_DAYS default_values"
       "omega_m p = 2 * pi / MONTH_DAYS default_values"
       "\<forall>i<sample_count.
          xe p ! i = AU default_values * cos (omega_e p * t p ! i)
        \<and> ye p ! i = AU default_values * sin (omega_e p * t p ! i)
        \<and> xm p ! i = xe p ! i + EM_DIST default_values * SCALE default_values * cos (omega_m p * t p ! i)
        \<and> ym p ! i = ye p ! i + EM_DIST default_values * SCALE default_values * sin (omega_m p * t p ! i)"
    by blast
  from p(4) sample_count_pos have
    "xe p ! 0 = AU default_values * cos (omega_e p * t p ! 0)"
    "xm p ! 0 = xe p ! 0 + EM_DIST default_values * SCALE default_values * cos (omega_m p * t p ! 0)"
    by blast+
  with p(1-3) h show ?thesis
    unfolding default_values_sel by blast
qed

text \<open>
  Claim C2. For positive year and month lengths the calculation returns, and the two
  curves handed to the renderer, the Earth's and the Moon's, have 10000 points each.
\<close>

theorem path_lengths:
  assumes "0 < YEAR_DAYS v" "0 < MONTH_DAYS v"
  shows "\<exists>p. compute_paths v = Inr p
    \<and> length (earthPath (draw v p)) = 10000
    \<and> length (moonPath (draw v p)) = 10000"
proof -
  have "YEAR_DAYS v \<noteq> 0" "MONTH_DAYS v \<noteq> 0" using assms by simp_all
  from compute_paths_samples [OF this] obtain p where
    "compute_paths v = Inr p" "length (xe p) = sample_count" "length (ye p) = sample_count"
    "length (xm p) = sample_count" "length (ym p) = sample_count"
    by blast
  then show ?thesis by (auto simp: draw_def sample_count_def)
qed

theorem path_lengths_witness:
  "0 < YEAR_DAYS default_values \<and> 0 < MONTH_DAYS default_values
   \<and> (\<exists>p. compute_paths default_values = Inr p
        \<and> length (earthPath (draw default_values p)) = 10000
        \<and> length (moonPath (draw default_values p)) = 10000)"
proof -
  have h: "0 < YEAR_DAYS default_values" "0 < MONTH_DAYS default_values"
    by (simp_all add: default_values_sel)
  with path_lengths [OF h] show ?thesis by simp
qed

section \<open>The form\<close>

text \<open>
  Claim C8. When the text of some field is not a number, reading the form raises
  \<open>ValueError\<close> at line 47, whatever follows line 53 in the body is not run (so no
  sample time and no position is computed and no figure is made), and the outcome of
  \<open>calculate_and_plot\<close> is the error message box.
\<close>

theorem unparsable_field:
  assumes "(name, txt) \<in> set entries" "py_float txt = None"
  shows "read_values py_float entries = Inl ValueError
    \<and> bind_exn (read_values py_float entries) rest = Inl ValueError
    \<and> calculate_and_plot py_float entries = ErrorBox"
proof -
  have "float_vals py_float entries = Inl ValueError"
    using assms by (rule float_vals_ValueError)
  then have r: "read_values py_float entries = Inl ValueError"
    by (simp add: read_values_def bind_exn_Inl)
  then show ?thesis by (simp add: calculate_and_plot_def bind_exn_Inl)
qed

theorem unparsable_field_witness:
  "(''AU'', ''abc'') \<in> set [(''AU'', ''abc''), (''EM_DIST'', ''384400''), (''YEAR'', ''365.25''),
                            (''MONTH'', ''27.32''), (''SCALE'', ''50'')]
   \<and> (\<lambda>s. if s = ''abc'' then None else Some 1) ''abc'' = None
   \<and> read_values (\<lambda>s. if s = ''abc'' then None else Some 1)
        [(''AU'', ''abc''), (''EM_DIST'', ''384400''), (''YEAR'', ''365.25''),
         (''MONTH'', ''27.32''), (''SCALE'', ''50'')] = Inl ValueError
   \<and> calculate_and_plot (\<lambda>s. if s = ''abc'' then None else Some 1)
        [(''AU'', ''abc''), (''EM_DIST'', ''384400''), (''YEAR'', ''365.25''),
         (''MONTH'', ''27.32''), (''SCALE'', ''50'')] = ErrorBox"
  using unparsable_field
    [of "''AU''" "''abc''"
        "[(''AU'', ''abc''), (''EM_DIST'', ''384400''), (''YEAR'', ''365.25''),
          (''MONTH'', ''27.32''), (''SCALE'', ''50'')]"
        "\<lambda>s. if s = ''abc'' then None else Some 1" compute_paths]
  by simp

text \<open>
  Claim C9, as amended. At launch the five fields hold the texts 149600000, 384400,
  365.25, 27.32 and 50: the Sun--Earth distance starts at 149 600 000 km, not at
  150 000 000 km as the claim has it.
\<close>

theorem create_gui_defaults:
  "create_gui_entries =
     [(''AU'', ''149600000''), (''EM_DIST'', ''384400''), (''YEAR'', ''365.25''),
      (''MONTH'', ''27.32''), (''SCALE'', ''50'')]"
  by (simp add: create_gui_entries_def config_items_def)

text \<open>
  Claim C9 as stated fails: the initial text of the field \<open>AU\<close> is 149600000, which is
  not 150000000.
\<close>

theorem create_gui_AU_counterexample:
  "map_of create_gui_entries ''AU'' = Some ''149600000''
   \<and> map_of create_gui_entries ''AU'' \<noteq> Some ''150000000''"
  by (simp add: create_gui_entries_def config_items_def)

text \<open>
  Claim C10. Two submissions whose fields read as the same five numbers (the texts may
  differ) run the same calculation and give the same outcome, curves included: nothing
  but the five values enters lines 57 to 67.
\<close>

theorem same_values_same_figure:
  assumes "read_values py_float entries = Inr v" "read_values py_float entries' = Inr w"
    "AU v = AU w" "EM_DIST v = EM_DIST w" "YEAR_DAYS v = YEAR_DAYS w"
    "MONTH_DAYS v = MONTH_DAYS w" "SCALE v = SCALE w"
  shows "compute_paths v = compute_paths w
    \<and> calculate_and_plot py_float entries = calculate_and_plot py_float entries'"
proof -
  have eq: "v = w" using assms(3-7) by simp
  have "calculate_and_plot py_float entries = calculate_and_plot py_float entries'"
    unfolding calculate_and_plot_read [OF assms(1)] calculate_and_plot_read [OF assms(2)]
    unfolding eq by (rule refl)
  then show ?thesis by (simp only: eq simp_thms)
qed

theorem same_values_same_figure_witness:
  "read_values (\<lambda>s. if s = ''50'' \<or> s = ''50.0'' then Some 50 else if s = ''1'' then Some 1 else None)
     [(''AU'', ''1''), (''EM_DIST'', ''1''), (''YEAR'', ''1''), (''MONTH'', ''1''), (''SCALE'', ''50'')]
     = Inr \<lparr>AU = 1, EM_DIST = 1, YEAR_DAYS = 1, MONTH_DAYS = 1, SCALE = 50\<rparr>
   \<and> read_values (\<lambda>s. if s = ''50'' \<or> s = ''50.0'' then Some 50 else if s = ''1'' then Some 1 else None)
     [(''AU'', ''1''), (''EM_DIST'', ''1''), (''YEAR'', ''1''), (''MONTH'', ''1''), (''SCALE'', ''50.0'')]
     = Inr \<lparr>AU = 1, EM_DIST = 1, YEAR_DAYS = 1, MONTH_DAYS = 1, SCALE = 50\<rparr>
   \<and> calculate_and_plot
       (\<lambda>s. if s = ''50'' \<or> s = ''50.0'' then Some 50 else if s = ''1'' then Some 1 else None)
       [(''AU'', ''1''), (''EM_DIST'', ''1''), (''YEAR'', ''1''), (''MONTH'', ''1''), (''SCALE'', ''50'')]
     = calculate_and_plot
       (\<lambda>s. if s = ''50'' \<or> s = ''50.0'' then Some 50 else if s = ''1'' then Some 1 else None)
       [(''AU'', ''1''), (''EM_DIST'', ''1''), (''YEAR'', ''1''), (''MONTH'', ''1''), (''SCALE'', ''50.0'')]"
proof -
  let ?f = "\<lambda>s. if s = ''50'' \<or> s = ''50.0'' then Some (50::real) else if s = ''1'' then Some 1 else None"
  let ?v = "\<lparr>AU = 1, EM_DIST = 1, YEAR_DAYS = 1, MONTH_DAYS = 1, SCALE = 50\<rparr>"
  have a: "read_values ?f
     [(''AU'', ''1''), (''EM_DIST'', ''1''), (''YEAR'', ''1''), (''MONTH'', ''1''), (''SCALE'', ''50'')]
     = Inr ?v"
    by (simp add: read_values_def bind_exn_def getitem_def)
  have b: "read_values ?f
     [(''AU'', ''1''), (''EM_DIST'', ''1''), (''YEAR'', ''1''), (''MONTH'', ''1''), (''SCALE'', ''50.0'')]
     = Inr ?v"
    by (simp add: read_values_def bind_exn_def getitem_def)
  from same_values_same_figure [OF a b] a b show ?thesis by simp
qed

end
